theory Spec2Isabelle
  imports Complex_Main
begin

section \<open>Python strings\<close>

text \<open>
  A Python \<^verbatim>\<open>str\<close> is a sequence of Unicode code points; it is modelled as a list of
  code points. \<open>ustr\<close> writes an ASCII literal as such a list.
\<close>

type_synonym ustring = "nat list"

definition ustr :: "string \<Rightarrow> ustring" where
  "ustr s = map of_char s"

text \<open>
  The code points for which \<^verbatim>\<open>str.isspace\<close> holds. \<^verbatim>\<open>str.strip()\<close> without argument and
  the class \<^verbatim>\<open>\s\<close> of a \<^verbatim>\<open>str\<close> pattern both use this set.
\<close>

definition is_space :: "nat \<Rightarrow> bool" where
  "is_space c = (c \<in> set [9, 10, 11, 12, 13, 28, 29, 30, 31, 32, 133, 160, 5760,
       8192, 8193, 8194, 8195, 8196, 8197, 8198, 8199, 8200, 8201, 8202,
       8232, 8233, 8239, 8287, 12288])"

text \<open>\<^verbatim>\<open>t.strip()\<close>: leading and trailing whitespace removed.\<close>

definition strip :: "ustring \<Rightarrow> ustring" where
  "strip t = rev (dropWhile is_space (rev (dropWhile is_space t)))"

text \<open>
  \<^verbatim>\<open>re.sub(r"[...]+", rep, t)\<close> for a character class \<open>P\<close>: every maximal run of
  characters of the class is replaced by \<open>rep\<close>.
\<close>

function sub_runs :: "(nat \<Rightarrow> bool) \<Rightarrow> ustring \<Rightarrow> ustring \<Rightarrow> ustring" where
  "sub_runs P rep [] = []"
| "sub_runs P rep (c # cs) =
     (if P c then rep @ sub_runs P rep (dropWhile P cs) else c # sub_runs P rep cs)"
  by pat_completeness auto
termination
  by (relation "measure (\<lambda>(P, rep, cs). length cs)")
     (auto simp: less_Suc_eq_le length_dropWhile_le)

text \<open>
  The class of the first substitution: the right single quotation mark U+2019, the
  apostrophe U+0027 and the grave accent U+0060.
\<close>

definition is_apostrophe :: "nat \<Rightarrow> bool" where
  "is_apostrophe c = (c \<in> set [8217, 39, 96])"

text \<open>The class \<^verbatim>\<open>[:!?.,&/()\-]\<close>.\<close>

definition is_punct :: "nat \<Rightarrow> bool" where
  "is_punct c = (c \<in> set (ustr '':!?.,&/()-''))"

text \<open>
  \<^verbatim>\<open>normalize_title\<close> (missing.py, lines 231--236). \<^verbatim>\<open>str.lower\<close> is driven by the Unicode
  case tables of the Python runtime, which are not part of the repository: it is the
  parameter \<open>lower\<close>. The four assignments to \<^verbatim>\<open>t\<close> are kept in the order of the source:
  lower and strip first, then the three substitutions.
\<close>

definition normalize_title :: "(ustring \<Rightarrow> ustring) \<Rightarrow> ustring \<Rightarrow> ustring" where
  "normalize_title lower t =
     (let t = strip (lower t);
          t = map (\<lambda>c. if is_apostrophe c then 39 else c) t;
          t = sub_runs is_punct (ustr '' '') t;
          t = sub_runs is_space (ustr '' '') t
      in t)"

text \<open>
  \<^verbatim>\<open>str.lower\<close> on strings whose code points are all below 256 (Basic Latin and Latin-1
  Supplement): A--Z and the capital letters U+00C0--U+00DE except the multiplication sign
  U+00D7 move up by 32, every other code point of that range is unchanged. It is the
  instance of \<open>lower\<close> at which concrete titles are evaluated.
\<close>

definition lower_cp :: "nat \<Rightarrow> nat" where
  "lower_cp c = (if 65 \<le> c \<and> c \<le> 90 then c + 32
                 else if 192 \<le> c \<and> c \<le> 222 \<and> c \<noteq> 215 then c + 32 else c)"

definition lower_latin1 :: "ustring \<Rightarrow> ustring" where
  "lower_latin1 t = map lower_cp t"

section \<open>Media records\<close>

text \<open>
  The dictionaries built by the list and library providers (lines 69, 91, 152--159,
  201--209, 215--223). \<^verbatim>\<open>title\<close> is read with \<^verbatim>\<open>it["title"]\<close> and passed to a function of a
  \<^verbatim>\<open>str\<close>, so it is a string here (a record without a title, or with the title \<^verbatim>\<open>None\<close>,
  makes the source raise and is not a value of this type); every other key is read with
  \<^verbatim>\<open>.get\<close>, for which an absent key and the value \<^verbatim>\<open>None\<close> are the same: \<open>None\<close>. An
  identifier that the list provider delivers as a positive number is represented by its
  decimal rendering, which is what the f-string of the index key makes of it. The rating
  key is the number that the library provider reads from the server.
\<close>

record media_record =
  title :: ustring
  year :: "ustring option"
  imdb_id :: "ustring option"
  tmdb_id :: "ustring option"
  tvdb_id :: "ustring option"
  kind :: "ustring option"
  ratingKey :: "int option"

text \<open>The three keys of the tuple \<^verbatim>\<open>("imdb_id", "tmdb_id", "tvdb_id")\<close>, in its order.\<close>

datatype id_field = Imdb_id | Tmdb_id | Tvdb_id

definition id_fields :: "id_field list" where
  "id_fields = [Imdb_id, Tmdb_id, Tvdb_id]"

fun key_name :: "id_field \<Rightarrow> ustring" where
  "key_name Imdb_id = ustr ''imdb_id''"
| "key_name Tmdb_id = ustr ''tmdb_id''"
| "key_name Tvdb_id = ustr ''tvdb_id''"

text \<open>\<^verbatim>\<open>it.get(key)\<close> for one of the three keys.\<close>

fun get_id :: "id_field \<Rightarrow> media_record \<Rightarrow> ustring option" where
  "get_id Imdb_id it = imdb_id it"
| "get_id Tmdb_id it = tmdb_id it"
| "get_id Tvdb_id it = tvdb_id it"

text \<open>Truth value of an optional string: \<^verbatim>\<open>None\<close> and \<^verbatim>\<open>""\<close> are false.\<close>

fun truthy :: "ustring option \<Rightarrow> bool" where
  "truthy None = False"
| "truthy (Some v) = (v \<noteq> [])"

text \<open>\<^verbatim>\<open>x or ""\<close>.\<close>

fun or_empty :: "ustring option \<Rightarrow> ustring" where
  "or_empty None = []"
| "or_empty (Some v) = v"

text \<open>The f-string \<^verbatim>\<open>f"{key}:{val}"\<close>.\<close>

definition fmt_key :: "id_field \<Rightarrow> ustring \<Rightarrow> ustring" where
  "fmt_key key val = key_name key @ ustr '':'' @ val"

section \<open>The two indexes\<close>

text \<open>
  \<^verbatim>\<open>index_by_ids\<close> (lines 238--245). The dictionary is a map; \<^verbatim>\<open>idx[k] = it\<close> is a map
  update, so a later assignment to the same key replaces the earlier one. \<open>index_keys\<close> is
  the inner loop over the three keys, the fold over \<open>items\<close> the outer loop.
\<close>

fun index_keys :: "media_record \<Rightarrow> id_field list \<Rightarrow> (ustring \<rightharpoonup> media_record)
    \<Rightarrow> (ustring \<rightharpoonup> media_record)" where
  "index_keys it [] idx = idx"
| "index_keys it (key # keys) idx =
     index_keys it keys
       (if truthy (get_id key it) then idx(fmt_key key (or_empty (get_id key it)) \<mapsto> it)
        else idx)"

definition index_by_ids :: "media_record list \<Rightarrow> (ustring \<rightharpoonup> media_record)" where
  "index_by_ids items = fold (\<lambda>it idx. index_keys it id_fields idx) items Map.empty"

text \<open>\<^verbatim>\<open>build_title_year_index\<close> (lines 247--253).\<close>

definition ty_key :: "(ustring \<Rightarrow> ustring) \<Rightarrow> media_record \<Rightarrow> ustring \<times> ustring" where
  "ty_key lower it = (normalize_title lower (title it), or_empty (year it))"

definition build_title_year_index ::
    "(ustring \<Rightarrow> ustring) \<Rightarrow> media_record list \<Rightarrow> (ustring \<times> ustring \<rightharpoonup> media_record)" where
  "build_title_year_index lower items = fold (\<lambda>it d. d(ty_key lower it \<mapsto> it)) items Map.empty"

section \<open>The fuzzy search\<close>

text \<open>
  Modelled from the spec: \<^verbatim>\<open>rapidfuzz.process.extractOne\<close> is a library function outside the
  repository. The spec says of it: compute a similarity score between the normalized
  reference title and every title of the library's flat title list, and take the single
  highest-scoring candidate. The result is the triple (choice, score, index) of the
  library, \<open>None\<close> for an empty list; of several titles with the highest score the
  earliest one is kept, a later title replacing the current best only with a strictly
  higher score. The scorer \<^verbatim>\<open>fuzz.WRatio\<close> is the parameter \<open>scorer\<close>; its scores are
  floating-point numbers between 0 and 100 that the code only compares with the integer
  threshold, so they are rationals here.
\<close>

fun extract_best :: "(ustring \<Rightarrow> ustring \<Rightarrow> rat) \<Rightarrow> ustring \<Rightarrow> (nat \<times> ustring) list
    \<Rightarrow> (ustring \<times> rat \<times> nat) option \<Rightarrow> (ustring \<times> rat \<times> nat) option" where
  "extract_best scorer query [] res = res"
| "extract_best scorer query ((i, choice) # rest) res =
     extract_best scorer query rest
       (case res of
          None \<Rightarrow> Some (choice, scorer query choice, i)
        | Some (c, best, j) \<Rightarrow>
            if best < scorer query choice then Some (choice, scorer query choice, i)
            else Some (c, best, j))"

definition extractOne :: "(ustring \<Rightarrow> ustring \<Rightarrow> rat) \<Rightarrow> ustring \<Rightarrow> ustring list
    \<Rightarrow> (ustring \<times> rat \<times> nat) option" where
  "extractOne scorer query choices = extract_best scorer query (enumerate 0 choices) None"

section \<open>Matching\<close>

text \<open>
  The body of the loop of \<^verbatim>\<open>match_present\<close> (lines 266--296) in its three stages. Each
  stage yields the value of \<^verbatim>\<open>found\<close>: \<open>None\<close> or a library record. A library record is a
  dictionary with at least the key \<^verbatim>\<open>title\<close>, hence true in \<^verbatim>\<open>if not found\<close>.
\<close>

text \<open>
  Lines 270--275: the keys in the order of the tuple, the first key whose value on the
  reference is true and whose formatted key is in the index ends the loop.
\<close>

fun id_stage :: "(ustring \<rightharpoonup> media_record) \<Rightarrow> id_field list \<Rightarrow> media_record
    \<Rightarrow> media_record option" where
  "id_stage id_index [] s = None"
| "id_stage id_index (key # keys) s =
     (if truthy (get_id key s) \<and> fmt_key key (or_empty (get_id key s)) \<in> dom id_index
      then id_index (fmt_key key (or_empty (get_id key s)))
      else id_stage id_index keys s)"

text \<open>Lines 278--280.\<close>

definition exact_stage :: "(ustring \<Rightarrow> ustring) \<Rightarrow> (ustring \<times> ustring \<rightharpoonup> media_record)
    \<Rightarrow> media_record \<Rightarrow> media_record option" where
  "exact_stage lower ty_index s = ty_index (normalize_title lower (title s), or_empty (year s))"

text \<open>
  Lines 285--286: the title that \<^verbatim>\<open>extractOne\<close> returns is a candidate when the list was
  not empty and its score is at least the threshold.
\<close>

definition fuzzy_candidate :: "(ustring \<Rightarrow> ustring \<Rightarrow> rat) \<Rightarrow> int \<Rightarrow> ustring \<Rightarrow> ustring list
    \<Rightarrow> ustring option" where
  "fuzzy_candidate scorer fuzzy_threshold st plex_titles =
     (case extractOne scorer st plex_titles of
        None \<Rightarrow> None
      | Some (c, score, i) \<Rightarrow> if of_int fuzzy_threshold \<le> score then Some c else None)"

text \<open>The condition of line 289 on the years of reference \<open>s\<close> and library record \<open>p\<close>.\<close>

definition year_ok :: "media_record \<Rightarrow> media_record \<Rightarrow> bool" where
  "year_ok s p = ((truthy (year s) \<and> year p = year s) \<or> \<not> truthy (year s))"

text \<open>Lines 283--291: the first library record with the candidate's title and a fitting year.\<close>

definition fuzzy_stage :: "(ustring \<Rightarrow> ustring) \<Rightarrow> (ustring \<Rightarrow> ustring \<Rightarrow> rat) \<Rightarrow> int
    \<Rightarrow> ustring list \<Rightarrow> media_record list \<Rightarrow> media_record \<Rightarrow> media_record option" where
  "fuzzy_stage lower scorer fuzzy_threshold plex_titles plex_items s =
     (case fuzzy_candidate scorer fuzzy_threshold (normalize_title lower (title s)) plex_titles of
        None \<Rightarrow> None
      | Some c \<Rightarrow> find (\<lambda>p. normalize_title lower (title p) = c \<and> year_ok s p) plex_items)"

definition find_match :: "(ustring \<Rightarrow> ustring) \<Rightarrow> (ustring \<Rightarrow> ustring \<Rightarrow> rat)
    \<Rightarrow> (ustring \<rightharpoonup> media_record) \<Rightarrow> (ustring \<times> ustring \<rightharpoonup> media_record) \<Rightarrow> ustring list
    \<Rightarrow> media_record list \<Rightarrow> int \<Rightarrow> bool \<Rightarrow> media_record \<Rightarrow> media_record option" where
  "find_match lower scorer id_index ty_index plex_titles plex_items fuzzy_threshold prefer_ids s =
     (let found = (if prefer_ids then id_stage id_index id_fields s else None);
          found = (case found of Some p \<Rightarrow> Some p | None \<Rightarrow> exact_stage lower ty_index s);
          found = (case found of Some p \<Rightarrow> Some p
                   | None \<Rightarrow> fuzzy_stage lower scorer fuzzy_threshold plex_titles plex_items s)
      in found)"

text \<open>
  Lines 293--296. An entry of \<^verbatim>\<open>present\<close> is the reference with the additional key
  \<^verbatim>\<open>_matched_ratingKey\<close>: the pair of the reference and that value.
\<close>

fun classify :: "(media_record \<Rightarrow> media_record option) \<Rightarrow> media_record list
    \<Rightarrow> (media_record \<times> int option) list \<times> media_record list
    \<Rightarrow> (media_record \<times> int option) list \<times> media_record list" where
  "classify f [] (present, missing) = (present, missing)"
| "classify f (s # source) (present, missing) =
     (case f s of
        Some found \<Rightarrow> classify f source (present @ [(s, ratingKey found)], missing)
      | None \<Rightarrow> classify f source (present, missing @ [s]))"

text \<open>
  The match that \<^verbatim>\<open>match_present\<close> computes for one reference: \<open>find_match\<close> on the indexes
  and the title list of lines 260--264.
\<close>

definition found_in :: "(ustring \<Rightarrow> ustring) \<Rightarrow> (ustring \<Rightarrow> ustring \<Rightarrow> rat) \<Rightarrow> media_record list
    \<Rightarrow> int \<Rightarrow> bool \<Rightarrow> media_record \<Rightarrow> media_record option" where
  "found_in lower scorer plex_items fuzzy_threshold prefer_ids =
     (let id_index = (if prefer_ids then index_by_ids plex_items else Map.empty);
          ty_index = build_title_year_index lower plex_items;
          plex_titles = map (\<lambda>p. normalize_title lower (title p)) plex_items
      in find_match lower scorer id_index ty_index plex_titles plex_items fuzzy_threshold
           prefer_ids)"

text \<open>\<^verbatim>\<open>match_present\<close> (lines 255--298).\<close>

definition match_present :: "(ustring \<Rightarrow> ustring) \<Rightarrow> (ustring \<Rightarrow> ustring \<Rightarrow> rat)
    \<Rightarrow> media_record list \<Rightarrow> media_record list \<Rightarrow> int \<Rightarrow> bool
    \<Rightarrow> (media_record \<times> int option) list \<times> media_record list" where
  "match_present lower scorer source plex_items fuzzy_threshold prefer_ids =
     classify (found_in lower scorer plex_items fuzzy_threshold prefer_ids) source ([], [])"

text \<open>
  The comparison of one source bundle in \<^verbatim>\<open>main\<close> (lines 481--485): the references are split
  by kind, the movies are matched against the library's movies and the shows against its
  shows.
\<close>

definition src_movies :: "media_record list \<Rightarrow> media_record list" where
  "src_movies items = filter (\<lambda>x. kind x = Some (ustr ''movie'')) items"

definition src_shows :: "media_record list \<Rightarrow> media_record list" where
  "src_shows items = filter (\<lambda>x. kind x = Some (ustr ''show'')) items"

definition compare_bundle :: "(ustring \<Rightarrow> ustring) \<Rightarrow> (ustring \<Rightarrow> ustring \<Rightarrow> rat)
    \<Rightarrow> media_record list \<Rightarrow> media_record list \<Rightarrow> media_record list \<Rightarrow> int \<Rightarrow> bool
    \<Rightarrow> ((media_record \<times> int option) list \<times> media_record list)
      \<times> ((media_record \<times> int option) list \<times> media_record list)" where
  "compare_bundle lower scorer items movies shows fuzzy_threshold prefer_ids =
     (match_present lower scorer (src_movies items) movies fuzzy_threshold prefer_ids,
      match_present lower scorer (src_shows items) shows fuzzy_threshold prefer_ids)"

section \<open>Auxiliary notions for the statements\<close>

text \<open>
  The index keys that the inner loop of \<^verbatim>\<open>index_by_ids\<close> writes for the record \<open>it\<close>: \<open>k\<close>
  is one of them when some key of the list has a true value on \<open>it\<close> and formats to \<open>k\<close>.
\<close>

definition has_key :: "media_record \<Rightarrow> id_field list \<Rightarrow> ustring \<Rightarrow> bool" where
  "has_key it keys k =
     list_ex (\<lambda>key. truthy (get_id key it) \<and> fmt_key key (or_empty (get_id key it)) = k) keys"

text \<open>
  A scorer at which examples are evaluated. Like \<^verbatim>\<open>fuzz.WRatio\<close> it gives 0 when one of the
  strings is empty and 100 for two equal strings; every other pair scores 90 here.
\<close>

definition sample_scorer :: "ustring \<Rightarrow> ustring \<Rightarrow> rat" where
  "sample_scorer s1 s2 = (if s1 = [] \<or> s2 = [] then 0 else if s1 = s2 then 100 else 90)"

section \<open>Example records\<close>

text \<open>Two library movies of the same title, and a third record that repeats the first.\<close>

definition lib_it_1990 :: media_record where
  "lib_it_1990 = \<lparr>title = ustr ''It'', year = Some (ustr ''1990''), imdb_id = Some (ustr ''tt1''),
     tmdb_id = Some (ustr ''10''), tvdb_id = None, kind = Some (ustr ''movie''),
     ratingKey = Some 1\<rparr>"

definition lib_it_2017 :: media_record where
  "lib_it_2017 = \<lparr>title = ustr ''It'', year = Some (ustr ''2017''), imdb_id = Some (ustr ''tt2''),
     tmdb_id = Some (ustr ''20''), tvdb_id = None, kind = Some (ustr ''movie''),
     ratingKey = Some 2\<rparr>"

definition lib_it_copy :: media_record where
  "lib_it_copy = lib_it_1990\<lparr>ratingKey := Some 7\<rparr>"

text \<open>A library show with the title, the year and the identifiers of \<open>lib_it_2017\<close>.\<close>

definition lib_it_show :: media_record where
  "lib_it_show = lib_it_2017\<lparr>kind := Some (ustr ''show''), ratingKey := Some 9\<rparr>"

text \<open>A library record without a year and without identifiers.\<close>

definition lib_plain :: media_record where
  "lib_plain = \<lparr>title = ustr ''Airplane'', year = Some [], imdb_id = None, tmdb_id = Some [],
     tvdb_id = None, kind = Some (ustr ''movie''), ratingKey = Some 3\<rparr>"

text \<open>
  References: one whose two identifiers lead to different library records, one with a
  title and a year only, one whose title is close to a library title, one with a blank
  title, and a show.
\<close>

definition ref_conflict :: media_record where
  "ref_conflict = \<lparr>title = ustr ''It'', year = Some (ustr ''2017''), imdb_id = Some (ustr ''tt1''),
     tmdb_id = Some (ustr ''20''), tvdb_id = None, kind = Some (ustr ''movie''),
     ratingKey = None\<rparr>"

definition ref_it_2017 :: media_record where
  "ref_it_2017 = \<lparr>title = ustr ''IT'', year = Some (ustr ''2017''), imdb_id = None,
     tmdb_id = Some [], tvdb_id = None, kind = Some (ustr ''movie''), ratingKey = None\<rparr>"

definition ref_close :: media_record where
  "ref_close = \<lparr>title = ustr ''Its'', year = None, imdb_id = None, tmdb_id = None,
     tvdb_id = None, kind = Some (ustr ''movie''), ratingKey = None\<rparr>"

definition ref_blank :: media_record where
  "ref_blank = \<lparr>title = ustr '' '', year = None, imdb_id = None, tmdb_id = None,
     tvdb_id = None, kind = Some (ustr ''movie''), ratingKey = None\<rparr>"

definition ref_show :: media_record where
  "ref_show = \<lparr>title = ustr ''It'', year = Some (ustr ''2017''), imdb_id = Some (ustr ''tt2''),
     tmdb_id = Some (ustr ''20''), tvdb_id = None, kind = Some (ustr ''show''),
     ratingKey = None\<rparr>"

text \<open>
  A reference whose imdb id is the empty string and whose tmdb id is in no library used
  here.
\<close>

definition ref_mixed :: media_record where
  "ref_mixed = \<lparr>title = ustr ''It'', year = Some (ustr ''2017''), imdb_id = Some [],
     tmdb_id = Some (ustr ''999''), tvdb_id = None, kind = Some (ustr ''movie''),
     ratingKey = None\<rparr>"

section \<open>Lists, maps and the two indexes\<close>

lemma fmt_key_inject [simp]: "fmt_key k v = fmt_key k' v' \<longleftrightarrow> k = k' \<and> v = v'"
  by (cases k; cases k'; simp add: fmt_key_def ustr_def)

lemma find_append_split:
  "find P (xs @ ys) = (case find P xs of None \<Rightarrow> find P ys | Some x \<Rightarrow> Some x)"
  by (induction xs) auto

lemma find_rev_last:
  assumes "j < length xs" "P (xs ! j)" "\<forall>l. j < l \<and> l < length xs \<longrightarrow> \<not> P (xs ! l)"
  shows "find P (rev xs) = Some (xs ! j)"
  using assms
proof (induction xs rule: rev_induct)
  case Nil
  then show ?case by simp
next
  case (snoc y ys)
  show ?case
  proof (cases "j = length ys")
    case True
    with snoc.prems show ?thesis by simp
  next
    case False
    with snoc.prems have j: "j < length ys" by simp
    from snoc.prems(3) j have ny: "\<not> P y"
      by (metis length_append_singleton lessI nth_append_length)
    have "\<forall>l. j < l \<and> l < length ys \<longrightarrow> \<not> P (ys ! l)"
    proof (intro allI impI)
      fix l assume l: "j < l \<and> l < length ys"
      then have "\<not> P ((ys @ [y]) ! l)" using snoc.prems(3) by simp
      with l show "\<not> P (ys ! l)" by (simp add: nth_append)
    qed
    with snoc.IH j snoc.prems(2) have "find P (rev ys) = Some (ys ! j)"
      by (simp add: nth_append)
    with ny j show ?thesis by (simp add: nth_append)
  qed
qed

lemma find_Some_mem: "find P xs = Some x \<Longrightarrow> x \<in> set xs \<and> P x"
  by (induction xs) (auto split: if_splits)

lemma find_not_None: "find P xs \<noteq> None \<longleftrightarrow> (\<exists>x\<in>set xs. P x)"
  by (induction xs) auto

lemma index_keys_apply:
  "index_keys it keys idx k = (if has_key it keys k then Some it else idx k)"
  by (induction keys arbitrary: idx) (auto simp: has_key_def)

lemma fold_index_keys:
  "fold (\<lambda>it idx. index_keys it id_fields idx) items idx k =
     (case find (\<lambda>it. has_key it id_fields k) (rev items) of None \<Rightarrow> idx k | Some p \<Rightarrow> Some p)"
  by (induction items arbitrary: idx)
     (auto simp: find_append_split index_keys_apply split: option.splits)

lemma index_by_ids_find:
  "index_by_ids items k = find (\<lambda>it. has_key it id_fields k) (rev items)"
  by (simp add: index_by_ids_def fold_index_keys split: option.splits)

lemma has_key_fmt:
  "has_key it id_fields (fmt_key ns v) \<longleftrightarrow> get_id ns it = Some v \<and> v \<noteq> []"
  by (cases ns; cases "imdb_id it"; cases "tmdb_id it"; cases "tvdb_id it")
     (auto simp: has_key_def id_fields_def)

lemma has_key_fields:
  "has_key p id_fields k \<longleftrightarrow> (\<exists>key v. get_id key p = Some v \<and> v \<noteq> [] \<and> k = fmt_key key v)"
proof
  assume "has_key p id_fields k"
  then obtain key where "truthy (get_id key p)" "fmt_key key (or_empty (get_id key p)) = k"
    by (auto simp: has_key_def list_ex_iff)
  then show "\<exists>key v. get_id key p = Some v \<and> v \<noteq> [] \<and> k = fmt_key key v"
    by (cases "get_id key p") auto
next
  assume "\<exists>key v. get_id key p = Some v \<and> v \<noteq> [] \<and> k = fmt_key key v"
  then obtain key v where "get_id key p = Some v" "v \<noteq> []" "k = fmt_key key v" by blast
  then show "has_key p id_fields k" by (simp add: has_key_fmt)
qed

lemma index_by_ids_fmt:
  "index_by_ids items (fmt_key ns v) = find (\<lambda>it. get_id ns it = Some v \<and> v \<noteq> []) (rev items)"
  by (simp add: index_by_ids_find has_key_fmt)

lemma index_by_ids_mem: "index_by_ids items k = Some p \<Longrightarrow> p \<in> set items \<and> has_key p id_fields k"
  using find_Some_mem [of "\<lambda>it. has_key it id_fields k" "rev items" p]
  by (simp add: index_by_ids_find)

lemma fold_ty_index:
  "fold (\<lambda>it d. d(ty_key lower it \<mapsto> it)) items d k =
     (case find (\<lambda>it. ty_key lower it = k) (rev items) of None \<Rightarrow> d k | Some p \<Rightarrow> Some p)"
  by (induction items arbitrary: d) (auto simp: find_append_split split: option.splits)

lemma build_title_year_index_find:
  "build_title_year_index lower items k = find (\<lambda>it. ty_key lower it = k) (rev items)"
  by (simp add: build_title_year_index_def fold_ty_index split: option.splits)

lemma build_title_year_index_mem:
  "build_title_year_index lower items k = Some p \<Longrightarrow> p \<in> set items \<and> ty_key lower p = k"
  using find_Some_mem [of "\<lambda>it. ty_key lower it = k" "rev items" p]
  by (simp add: build_title_year_index_find)

section \<open>The best candidate\<close>

lemma extract_best_Some:
  "extract_best scorer q ics (Some (c, b, j)) = Some (c', b', j') \<Longrightarrow>
     b \<le> b' \<and> (\<forall>x\<in>snd ` set ics. scorer q x \<le> b') \<and>
     ((c', b', j') = (c, b, j) \<or> (c' \<in> snd ` set ics \<and> scorer q c' = b'))"
proof (induction ics arbitrary: c b j)
  case Nil
  then show ?case by simp
next
  case (Cons ic ics)
  obtain i x where ic: "ic = (i, x)" by (cases ic)
  show ?case
  proof (cases "b < scorer q x")
    case True
    with Cons.prems ic
    have "extract_best scorer q ics (Some (x, scorer q x, i)) = Some (c', b', j')" by simp
    from Cons.IH [OF this] True ic show ?thesis by auto
  next
    case False
    with Cons.prems ic
    have "extract_best scorer q ics (Some (c, b, j)) = Some (c', b', j')" by simp
    from Cons.IH [OF this] False ic show ?thesis by auto
  qed
qed

lemma extract_best_not_None: "extract_best scorer q ics (Some r) \<noteq> None"
  by (induction ics arbitrary: r) (auto split: prod.splits)

lemma extract_best_keep:
  "\<forall>x\<in>snd ` set ics. \<not> b < scorer q x \<Longrightarrow>
   extract_best scorer q ics (Some (c, b, j)) = Some (c, b, j)"
  by (induction ics) auto

lemma snd_enumerate: "snd ` set (enumerate n xs) = set xs"
  by (induction xs arbitrary: n) auto

lemma extractOne_Nil: "extractOne scorer q [] = None"
  by (simp add: extractOne_def)

lemma extractOne_best:
  assumes "choices \<noteq> []"
  shows "\<exists>c i. extractOne scorer q choices = Some (c, Max (scorer q ` set choices), i)
           \<and> c \<in> set choices \<and> scorer q c = Max (scorer q ` set choices)"
proof -
  from assms obtain x xs where xs: "choices = x # xs" by (cases choices) auto
  let ?r = "extract_best scorer q (enumerate (Suc 0) xs) (Some (x, scorer q x, 0))"
  have eq: "extractOne scorer q choices = ?r" by (simp add: extractOne_def xs)
  obtain c b i where r: "?r = Some (c, b, i)"
    using extract_best_not_None [of scorer q "enumerate (Suc 0) xs" "(x, scorer q x, 0)"]
    by (cases ?r) auto
  from extract_best_Some [OF r]
  have ge: "scorer q x \<le> b" and all: "\<forall>y\<in>set xs. scorer q y \<le> b"
    and mem: "(c, b, i) = (x, scorer q x, 0) \<or> (c \<in> set xs \<and> scorer q c = b)"
    by (simp_all add: snd_enumerate)
  from mem have cmem: "c \<in> set choices" and cb: "scorer q c = b" by (auto simp: xs)
  have "Max (scorer q ` set choices) = b"
  proof (rule Max_eqI)
    show "finite (scorer q ` set choices)" by simp
    show "\<And>y. y \<in> scorer q ` set choices \<Longrightarrow> y \<le> b" using ge all by (auto simp: xs)
    show "b \<in> scorer q ` set choices" using cmem cb by auto
  qed
  with eq r cmem cb show ?thesis by auto
qed

lemma extractOne_all_zero:
  assumes "\<forall>c. scorer q c = 0"
  shows "extractOne scorer q (t # ts) = Some (t, 0, 0)"
  using assms extract_best_keep [of "enumerate (Suc 0) ts" 0 scorer q t 0]
  by (simp add: extractOne_def)

lemma fuzzy_candidate_best:
  assumes "titles \<noteq> []"
  shows "\<exists>c\<in>set titles. scorer st c = Max (scorer st ` set titles) \<and>
           fuzzy_candidate scorer thr st titles =
             (if of_int thr \<le> Max (scorer st ` set titles) then Some c else None)"
  using extractOne_best [OF assms, of scorer st] by (auto simp: fuzzy_candidate_def)

lemma fuzzy_candidate_all_zero:
  assumes "\<forall>c. scorer q c = 0"
  shows "fuzzy_candidate scorer thr q titles =
           (case titles of [] \<Rightarrow> None | t # ts \<Rightarrow> if thr \<le> 0 then Some t else None)"
  using extractOne_all_zero [of scorer q, OF assms]
  by (cases titles) (simp_all add: fuzzy_candidate_def extractOne_Nil)

section \<open>The stages and the two result lists\<close>

lemma id_stage_ran: "id_stage idx keys s = Some p \<Longrightarrow> \<exists>k. idx k = Some p"
  by (induction keys) (auto split: if_splits)

lemma id_stage_find:
  "id_stage idx keys s =
     (case find (\<lambda>key. truthy (get_id key s) \<and> fmt_key key (or_empty (get_id key s)) \<in> dom idx) keys of
        None \<Rightarrow> None
      | Some key \<Rightarrow> idx (fmt_key key (or_empty (get_id key s))))"
  by (induction keys) auto

lemma id_stage_all_falsy:
  "\<forall>key. \<not> truthy (get_id key s) \<Longrightarrow> id_stage id_index keys s = None"
  by (induction keys) auto

lemma fuzzy_stage_mem:
  "fuzzy_stage lower scorer thr titles plex_items s = Some p \<Longrightarrow> p \<in> set plex_items"
  by (auto simp: fuzzy_stage_def split: option.splits dest: find_Some_mem)

lemma found_in_mem:
  assumes "found_in lower scorer plex_items thr prefer s = Some p"
  shows "p \<in> set plex_items"
proof -
  let ?idx = "if prefer then index_by_ids plex_items else Map.empty"
  let ?ids = "if prefer then id_stage ?idx id_fields s else None"
  let ?ty = "exact_stage lower (build_title_year_index lower plex_items) s"
  let ?fz = "fuzzy_stage lower scorer thr (map (\<lambda>p. normalize_title lower (title p)) plex_items)
               plex_items s"
  from assms have "?ids = Some p \<or> ?ty = Some p \<or> ?fz = Some p"
    by (auto simp: found_in_def find_match_def Let_def split: option.splits if_splits)
  then show ?thesis
  proof (elim disjE)
    assume "?ids = Some p"
    then have "prefer" "id_stage (index_by_ids plex_items) id_fields s = Some p"
      by (auto split: if_splits)
    then obtain k where "index_by_ids plex_items k = Some p"
      using id_stage_ran by blast
    then show ?thesis using index_by_ids_mem by blast
  next
    assume "?ty = Some p"
    then show ?thesis using build_title_year_index_mem by (auto simp: exact_stage_def)
  next
    assume "?fz = Some p"
    then show ?thesis by (rule fuzzy_stage_mem)
  qed
qed

lemma found_in_id_hit:
  assumes "id_stage (index_by_ids plex_items) id_fields s = Some p"
  shows "found_in lower scorer plex_items thr True s = Some p"
  using assms by (simp add: found_in_def find_match_def)

lemma found_in_titles:
  assumes "\<not> prefer \<or> id_stage (index_by_ids plex_items) id_fields s = None"
    and "exact_stage lower (build_title_year_index lower plex_items) s = None"
  shows "found_in lower scorer plex_items thr prefer s =
           fuzzy_stage lower scorer thr (map (\<lambda>p. normalize_title lower (title p)) plex_items)
             plex_items s"
  using assms by (auto simp: found_in_def find_match_def)

lemma found_in_all_falsy:
  assumes "\<forall>key. \<not> truthy (get_id key s)"
  shows "found_in lower scorer plex_items thr prefer s =
           (case exact_stage lower (build_title_year_index lower plex_items) s of
              Some p \<Rightarrow> Some p
            | None \<Rightarrow> fuzzy_stage lower scorer thr
                        (map (\<lambda>p. normalize_title lower (title p)) plex_items) plex_items s)"
  by (simp add: found_in_def find_match_def id_stage_all_falsy [OF assms])

lemma classify_eq:
  "classify f source (present, missing) =
     (present @ map (\<lambda>s. (s, ratingKey (the (f s)))) (filter (\<lambda>s. f s \<noteq> None) source),
      missing @ filter (\<lambda>s. f s = None) source)"
  by (induction source arbitrary: present missing) (auto split: option.splits)

lemma match_present_eq:
  "match_present lower scorer source plex_items thr prefer =
     (map (\<lambda>s. (s, ratingKey (the (found_in lower scorer plex_items thr prefer s))))
        (filter (\<lambda>s. found_in lower scorer plex_items thr prefer s \<noteq> None) source),
      filter (\<lambda>s. found_in lower scorer plex_items thr prefer s = None) source)"
  by (simp add: match_present_def classify_eq)

lemma match_present_present:
  assumes "s \<in> set source" "found_in lower scorer plex_items thr prefer s = Some p"
  shows "(s, ratingKey p) \<in> set (fst (match_present lower scorer source plex_items thr prefer))"
    and "s \<notin> set (snd (match_present lower scorer source plex_items thr prefer))"
  using assms by (auto simp: match_present_eq image_iff intro!: bexI [of _ s])

lemma index_keys_removeAll:
  "\<not> truthy (get_id key it) \<Longrightarrow>
   index_keys it keys idx = index_keys it (removeAll key keys) idx"
  by (induction keys arbitrary: idx) auto

lemma id_stage_removeAll:
  "\<not> truthy (get_id key s) \<Longrightarrow>
   id_stage id_index keys s = id_stage id_index (removeAll key keys) s"
  by (induction keys) auto

lemma id_stage_Some_truthy:
  "id_stage id_index keys s = Some q \<Longrightarrow>
   \<exists>key\<in>set keys. truthy (get_id key s) \<and>
      id_index (fmt_key key (or_empty (get_id key s))) = Some q"
  by (induction keys) (auto split: if_splits)

lemma found_in_id_miss:
  assumes "\<not> prefer \<or> id_stage (index_by_ids plex_items) id_fields s = None"
  shows "found_in lower scorer plex_items thr prefer s =
           (case exact_stage lower (build_title_year_index lower plex_items) s of
              Some p \<Rightarrow> Some p
            | None \<Rightarrow> fuzzy_stage lower scorer thr
                        (map (\<lambda>p. normalize_title lower (title p)) plex_items) plex_items s)"
  using assms by (auto simp: found_in_def find_match_def)

section \<open>Evaluation of the examples\<close>

lemmas normalize_eval =
  lower_latin1_def lower_cp_def ustr_def strip_def is_space_def is_punct_def is_apostrophe_def

lemma normalize_hello: "normalize_title lower_latin1 (ustr ''Hello!'') = ustr ''hello ''"
  unfolding normalize_title_def Let_def by (simp add: normalize_eval)

lemma normalize_hello_space: "normalize_title lower_latin1 (ustr ''hello '') = ustr ''hello''"
  unfolding normalize_title_def Let_def by (simp add: normalize_eval)

lemma normalize_airplane_bang:
  "normalize_title lower_latin1 (ustr ''Airplane!'') = ustr ''airplane ''"
  unfolding normalize_title_def Let_def by (simp add: normalize_eval)

lemma normalize_airplane: "normalize_title lower_latin1 (ustr ''Airplane'') = ustr ''airplane''"
  unfolding normalize_title_def Let_def by (simp add: normalize_eval)

lemma normalize_spider_punct:
  "normalize_title lower_latin1 (ustr ''Spider-Man: Homecoming'') = ustr ''spider man homecoming''"
  unfolding normalize_title_def Let_def by (simp add: normalize_eval)

lemma normalize_spider_plain:
  "normalize_title lower_latin1 (ustr ''Spider Man Homecoming'') = ustr ''spider man homecoming''"
  unfolding normalize_title_def Let_def by (simp add: normalize_eval)

text \<open>\<open>233\<close> is U+00E9, the e with acute accent.\<close>

lemma normalize_leon_accent:
  "normalize_title lower_latin1 (ustr ''L'' @ [233] @ ustr ''on: The Professional'')
     = ustr ''l'' @ [233] @ ustr ''on the professional''"
  unfolding normalize_title_def Let_def by (simp add: normalize_eval)

lemma normalize_leon_plain:
  "normalize_title lower_latin1 (ustr ''Leon The Professional'') = ustr ''leon the professional''"
  unfolding normalize_title_def Let_def by (simp add: normalize_eval)

lemma normalize_it: "normalize_title lower_latin1 (ustr ''It'') = ustr ''it''"
  unfolding normalize_title_def Let_def by (simp add: normalize_eval)

lemma normalize_IT: "normalize_title lower_latin1 (ustr ''IT'') = ustr ''it''"
  unfolding normalize_title_def Let_def by (simp add: normalize_eval)

lemma normalize_its: "normalize_title lower_latin1 (ustr ''Its'') = ustr ''its''"
  unfolding normalize_title_def Let_def by (simp add: normalize_eval)

lemma normalize_blank: "normalize_title lower_latin1 (ustr '' '') = []"
  unfolding normalize_title_def Let_def by (simp add: normalize_eval)

lemmas example_defs = lib_it_1990_def lib_it_2017_def lib_it_copy_def lib_it_show_def
  lib_plain_def ref_conflict_def ref_it_2017_def ref_close_def ref_blank_def ref_show_def

lemma normalize_plain_title: "normalize_title lower_latin1 (title lib_plain) = ustr ''airplane''"
  by (simp add: lib_plain_def normalize_airplane)

lemma normalize_blank_title: "normalize_title lower_latin1 (title ref_blank) = []"
  by (simp add: ref_blank_def normalize_blank)

lemma sample_scorer_empty: "\<forall>c. sample_scorer [] c = 0"
  by (simp add: sample_scorer_def)

lemma found_conflict:
  "found_in lower scorer [lib_it_1990, lib_it_2017] thr True ref_conflict = Some lib_it_1990"
  by (rule found_in_id_hit)
     (simp add: id_fields_def index_by_ids_fmt domIff example_defs ustr_def)

lemma found_show:
  "found_in lower scorer [lib_it_show] thr True ref_show = Some lib_it_show"
  by (rule found_in_id_hit)
     (simp add: id_fields_def index_by_ids_fmt domIff example_defs ustr_def)

lemma bundle_example:
  "compare_bundle lower_latin1 sample_scorer [ref_conflict, ref_show]
     [lib_it_1990, lib_it_2017] [lib_it_show] 90 True
   = (([(ref_conflict, Some 1)], []), ([(ref_show, Some 9)], []))"
proof -
  have m: "src_movies [ref_conflict, ref_show] = [ref_conflict]"
    by (simp add: src_movies_def example_defs ustr_def)
  have s: "src_shows [ref_conflict, ref_show] = [ref_show]"
    by (simp add: src_shows_def example_defs ustr_def)
  have k1: "ratingKey lib_it_1990 = Some 1" by (simp add: example_defs)
  have k2: "ratingKey lib_it_show = Some 9" by (simp add: example_defs)
  show ?thesis
    by (simp add: compare_bundle_def m s match_present_def found_conflict found_show k1 k2)
qed

lemma max_its: "Max (sample_scorer (ustr ''its'') ` set [ustr ''it'', ustr ''it'']) = 90"
  by (simp add: sample_scorer_def ustr_def)

lemma fuzzy_close_90:
  "fuzzy_stage lower_latin1 sample_scorer 90 [ustr ''it'', ustr ''it'']
     [lib_it_1990, lib_it_2017] ref_close = Some lib_it_1990"
  by (simp add: fuzzy_stage_def fuzzy_candidate_def extractOne_def sample_scorer_def year_ok_def
        example_defs normalize_its normalize_it)
     (simp add: ustr_def)

lemma fuzzy_blank_0:
  "fuzzy_stage lower_latin1 sample_scorer 0 [normalize_title lower_latin1 (title lib_plain)]
     [lib_plain] ref_blank = Some lib_plain"
proof -
  have ny: "year ref_blank = None" by (simp add: ref_blank_def)
  show ?thesis
    by (simp add: fuzzy_stage_def normalize_blank_title year_ok_def ny
          fuzzy_candidate_all_zero [of sample_scorer "[]", OF sample_scorer_empty])
qed

lemma found_blank_0:
  "found_in lower_latin1 sample_scorer [lib_plain] 0 True ref_blank = Some lib_plain"
proof -
  have ids: "id_stage (index_by_ids [lib_plain]) id_fields ref_blank = None"
    by (simp add: id_fields_def ref_blank_def)
  have ne: "ustr ''airplane'' \<noteq> []" by (simp add: ustr_def)
  have ex: "exact_stage lower_latin1 (build_title_year_index lower_latin1 [lib_plain]) ref_blank
              = None"
    using ne
    by (simp add: exact_stage_def build_title_year_index_find ty_key_def normalize_blank_title
          normalize_plain_title)
  show ?thesis
    using fuzzy_blank_0 by (simp add: found_in_titles ids ex)
qed

section \<open>The normalizer\<close>

text \<open>
  C6, as the code behaves: \<open>normalize_title\<close> is not idempotent. The title \<^verbatim>\<open>Hello!\<close> is
  stripped before its final punctuation becomes a space, so its normal form \<^verbatim>\<open>"hello "\<close>
  ends in a space; normalizing that once more removes the space.
\<close>

theorem normalize_title_not_idempotent:
  "normalize_title lower_latin1 (ustr ''Hello!'') = ustr ''hello '' \<and>
   normalize_title lower_latin1 (normalize_title lower_latin1 (ustr ''Hello!'')) = ustr ''hello'' \<and>
   normalize_title lower_latin1 (normalize_title lower_latin1 (ustr ''Hello!''))
     \<noteq> normalize_title lower_latin1 (ustr ''Hello!'')"
  unfolding normalize_hello normalize_hello_space by (simp add: ustr_def)

text \<open>
  C7, as the code behaves: the two examples hold, \<^verbatim>\<open>Spider-Man: Homecoming\<close> and
  \<^verbatim>\<open>Spider Man Homecoming\<close> have the same normal form and the title with the accented e
  differs from the title with the plain e, since no accent is folded. The guarantee that
  titles differing only in the stripped punctuation normalize identically fails at the end
  of a title: \<^verbatim>\<open>Airplane!\<close> keeps a final space, \<^verbatim>\<open>Airplane\<close> has none.
\<close>

theorem normalize_equivalence_trailing_punct:
  "normalize_title lower_latin1 (ustr ''Spider-Man: Homecoming'')
     = normalize_title lower_latin1 (ustr ''Spider Man Homecoming'') \<and>
   normalize_title lower_latin1 (ustr ''L'' @ [233] @ ustr ''on: The Professional'')
     \<noteq> normalize_title lower_latin1 (ustr ''Leon The Professional'') \<and>
   normalize_title lower_latin1 (ustr ''Airplane!'') = ustr ''airplane '' \<and>
   normalize_title lower_latin1 (ustr ''Airplane'') = ustr ''airplane'' \<and>
   normalize_title lower_latin1 (ustr ''Airplane!'')
     \<noteq> normalize_title lower_latin1 (ustr ''Airplane'')"
  unfolding normalize_spider_punct normalize_spider_plain normalize_leon_accent
    normalize_leon_plain normalize_airplane_bang normalize_airplane
  by (simp add: ustr_def)

section \<open>Identifier stage\<close>

text \<open>
  C1: a reference with an imdb id and a tmdb id, both true, whose imdb id leads to the
  library record \<open>p1\<close> and whose tmdb id leads to a different record \<open>p2\<close>, is matched to
  \<open>p1\<close> when \<open>prefer_ids\<close> is true: the identifier stage and the whole search return \<open>p1\<close>,
  and \<^verbatim>\<open>match_present\<close> lists the reference as present with the rating key of \<open>p1\<close>. The
  identifier stage is the first key of the order imdb, tmdb, tvdb whose value on the
  reference is true and in the index.
\<close>

theorem identifier_priority:
  assumes "imdb_id s = Some a" "a \<noteq> []" "tmdb_id s = Some b" "b \<noteq> []"
    and "index_by_ids plex_items (fmt_key Imdb_id a) = Some p1"
    and "index_by_ids plex_items (fmt_key Tmdb_id b) = Some p2"
    and "p1 \<noteq> p2"
  shows "id_stage (index_by_ids plex_items) id_fields s = Some p1 \<and>
         found_in lower scorer plex_items fuzzy_threshold True s = Some p1 \<and>
         (s \<in> set source \<longrightarrow>
            (s, ratingKey p1)
              \<in> set (fst (match_present lower scorer source plex_items fuzzy_threshold True)) \<and>
            s \<notin> set (snd (match_present lower scorer source plex_items fuzzy_threshold True))) \<and>
         id_stage id_index id_fields s =
           (case find (\<lambda>key. truthy (get_id key s) \<and>
                         fmt_key key (or_empty (get_id key s)) \<in> dom id_index)
                   [Imdb_id, Tmdb_id, Tvdb_id] of
              None \<Rightarrow> None
            | Some key \<Rightarrow> id_index (fmt_key key (or_empty (get_id key s))))"
proof -
  from assms(1,2,5) have ids: "id_stage (index_by_ids plex_items) id_fields s = Some p1"
    by (simp add: id_fields_def domI)
  then have f: "found_in lower scorer plex_items fuzzy_threshold True s = Some p1"
    by (rule found_in_id_hit)
  have order: "id_stage id_index id_fields s =
           (case find (\<lambda>key. truthy (get_id key s) \<and>
                         fmt_key key (or_empty (get_id key s)) \<in> dom id_index)
                   [Imdb_id, Tmdb_id, Tvdb_id] of
              None \<Rightarrow> None
            | Some key \<Rightarrow> id_index (fmt_key key (or_empty (get_id key s))))"
    using id_stage_find [of id_index id_fields s] by (simp only: id_fields_def)
  from ids f match_present_present [OF _ f] order show ?thesis by blast
qed

theorem identifier_priority_witness:
  "imdb_id ref_conflict = Some (ustr ''tt1'') \<and> tmdb_id ref_conflict = Some (ustr ''20'') \<and>
   index_by_ids [lib_it_1990, lib_it_2017] (fmt_key Imdb_id (ustr ''tt1'')) = Some lib_it_1990 \<and>
   index_by_ids [lib_it_1990, lib_it_2017] (fmt_key Tmdb_id (ustr ''20'')) = Some lib_it_2017 \<and>
   lib_it_1990 \<noteq> lib_it_2017 \<and>
   found_in lower_latin1 sample_scorer [lib_it_1990, lib_it_2017] 90 True ref_conflict
     = Some lib_it_1990 \<and>
   (ref_conflict, Some 1)
     \<in> set (fst (match_present lower_latin1 sample_scorer [ref_conflict]
                   [lib_it_1990, lib_it_2017] 90 True))"
proof -
  have h1: "imdb_id ref_conflict = Some (ustr ''tt1'')" by (simp add: ref_conflict_def)
  have h2: "ustr ''tt1'' \<noteq> []" by (simp add: ustr_def)
  have h3: "tmdb_id ref_conflict = Some (ustr ''20'')" by (simp add: ref_conflict_def)
  have h4: "ustr ''20'' \<noteq> []" by (simp add: ustr_def)
  have h5: "index_by_ids [lib_it_1990, lib_it_2017] (fmt_key Imdb_id (ustr ''tt1''))
              = Some lib_it_1990"
    by (simp add: index_by_ids_fmt example_defs ustr_def)
  have h6: "index_by_ids [lib_it_1990, lib_it_2017] (fmt_key Tmdb_id (ustr ''20''))
              = Some lib_it_2017"
    by (simp add: index_by_ids_fmt example_defs ustr_def)
  have h7: "lib_it_1990 \<noteq> lib_it_2017" by (simp add: example_defs ustr_def)
  have rk: "ratingKey lib_it_1990 = Some 1" by (simp add: lib_it_1990_def)
  from identifier_priority [OF h1 h2 h3 h4 h5 h6 h7, where lower = lower_latin1
      and scorer = sample_scorer and fuzzy_threshold = 90 and source = "[ref_conflict]"]
  show ?thesis using h1 h3 h5 h6 h7 rk by simp
qed

section \<open>Kind isolation\<close>

text \<open>
  C2: in the comparison of a bundle, with the library's movies all of kind movie and its
  shows all of kind show (as the library provider labels them, lines 208 and 222), every
  present movie reference has kind movie and its match is a record of the movie list,
  hence not of kind show; every present show reference has kind show and its match is a
  record of the show list; a movie reference is in neither result list of the shows and
  a show reference in neither result list of the movies. Titles, years and identifiers
  play no part in it.
\<close>

theorem kind_isolation:
  assumes "compare_bundle lower scorer items plex_movies plex_shows fuzzy_threshold prefer_ids
             = ((present_movies, missing_movies), (present_shows, missing_shows))"
    and "\<forall>p\<in>set plex_movies. kind p = Some (ustr ''movie'')"
    and "\<forall>p\<in>set plex_shows. kind p = Some (ustr ''show'')"
  shows "(\<forall>(s, rk)\<in>set present_movies. kind s = Some (ustr ''movie'') \<and>
            (\<exists>p\<in>set plex_movies. found_in lower scorer plex_movies fuzzy_threshold prefer_ids s = Some p \<and>
               rk = ratingKey p \<and> kind p \<noteq> Some (ustr ''show''))) \<and>
         (\<forall>(s, rk)\<in>set present_shows. kind s = Some (ustr ''show'') \<and>
            (\<exists>p\<in>set plex_shows. found_in lower scorer plex_shows fuzzy_threshold prefer_ids s = Some p \<and>
               rk = ratingKey p \<and> kind p \<noteq> Some (ustr ''movie''))) \<and>
         (\<forall>s. kind s = Some (ustr ''movie'') \<longrightarrow>
            s \<notin> fst ` set present_shows \<and> s \<notin> set missing_shows) \<and>
         (\<forall>s. kind s = Some (ustr ''show'') \<longrightarrow>
            s \<notin> fst ` set present_movies \<and> s \<notin> set missing_movies)"
proof -
  have ne: "ustr ''movie'' \<noteq> ustr ''show''" by (simp add: ustr_def)
  from assms(1)
  have pm: "present_movies = fst (match_present lower scorer (src_movies items) plex_movies fuzzy_threshold prefer_ids)"
    and mm: "missing_movies = snd (match_present lower scorer (src_movies items) plex_movies fuzzy_threshold prefer_ids)"
    and ps: "present_shows = fst (match_present lower scorer (src_shows items) plex_shows fuzzy_threshold prefer_ids)"
    and ms: "missing_shows = snd (match_present lower scorer (src_shows items) plex_shows fuzzy_threshold prefer_ids)"
    by (simp_all add: compare_bundle_def)
  have a: "\<forall>(s, rk)\<in>set present_movies. kind s = Some (ustr ''movie'') \<and>
            (\<exists>p\<in>set plex_movies. found_in lower scorer plex_movies fuzzy_threshold prefer_ids s = Some p \<and>
               rk = ratingKey p \<and> kind p \<noteq> Some (ustr ''show''))"
    using assms(2) ne found_in_mem [of lower scorer plex_movies fuzzy_threshold prefer_ids]
    by (fastforce simp: pm match_present_eq src_movies_def)
  have b: "\<forall>(s, rk)\<in>set present_shows. kind s = Some (ustr ''show'') \<and>
            (\<exists>p\<in>set plex_shows. found_in lower scorer plex_shows fuzzy_threshold prefer_ids s = Some p \<and>
               rk = ratingKey p \<and> kind p \<noteq> Some (ustr ''movie''))"
    using assms(3) ne found_in_mem [of lower scorer plex_shows fuzzy_threshold prefer_ids]
    by (fastforce simp: ps match_present_eq src_shows_def)
  have c: "\<forall>s. kind s = Some (ustr ''movie'') \<longrightarrow>
            s \<notin> fst ` set present_shows \<and> s \<notin> set missing_shows"
    using ne by (auto simp: ps ms match_present_eq src_shows_def)
  have d: "\<forall>s. kind s = Some (ustr ''show'') \<longrightarrow>
            s \<notin> fst ` set present_movies \<and> s \<notin> set missing_movies"
    using ne by (auto simp: pm mm match_present_eq src_movies_def)
  from a b c d show ?thesis by blast
qed

theorem kind_isolation_witness:
  "compare_bundle lower_latin1 sample_scorer [ref_conflict, ref_show]
     [lib_it_1990, lib_it_2017] [lib_it_show] 90 True
     = (([(ref_conflict, Some 1)], []), ([(ref_show, Some 9)], [])) \<and>
   kind lib_it_1990 = Some (ustr ''movie'') \<and> kind lib_it_2017 = Some (ustr ''movie'') \<and>
   kind lib_it_show = Some (ustr ''show'') \<and>
   imdb_id ref_show = imdb_id lib_it_2017 \<and> tmdb_id ref_show = tmdb_id lib_it_2017 \<and>
   title ref_show = title lib_it_2017 \<and> year ref_show = year lib_it_2017 \<and>
   kind ref_conflict = Some (ustr ''movie'') \<and> kind ref_show = Some (ustr ''show'') \<and>
   found_in lower_latin1 sample_scorer [lib_it_show] 90 True ref_show = Some lib_it_show \<and>
   ref_conflict \<notin> fst ` set [(ref_show, Some (9::int))] \<and>
   ref_show \<notin> fst ` set [(ref_conflict, Some (1::int))]"
proof -
  have h2: "\<forall>p\<in>set [lib_it_1990, lib_it_2017]. kind p = Some (ustr ''movie'')"
    by (simp add: example_defs)
  have h3: "\<forall>p\<in>set [lib_it_show]. kind p = Some (ustr ''show'')"
    by (simp add: example_defs)
  have k: "kind ref_conflict = Some (ustr ''movie'')" "kind ref_show = Some (ustr ''show'')"
    by (simp_all add: example_defs)
  have same: "imdb_id ref_show = imdb_id lib_it_2017" "tmdb_id ref_show = tmdb_id lib_it_2017"
    "title ref_show = title lib_it_2017" "year ref_show = year lib_it_2017"
    by (simp_all add: example_defs)
  from kind_isolation [OF bundle_example h2 h3]
  have "ref_conflict \<notin> fst ` set [(ref_show, Some (9::int))]"
    and "ref_show \<notin> fst ` set [(ref_conflict, Some (1::int))]"
    using k by blast+
  with h2 h3 k same bundle_example found_show show ?thesis by simp
qed

section \<open>Exact title and year\<close>

text \<open>
  C3: a match of the exact stage is a library record with the same normalized title; when
  the reference has a year, the record's year is that year; when the reference has none
  (\<^verbatim>\<open>None\<close> or the empty string), the key's year is the empty string and the record has
  no year either.
\<close>

theorem exact_stage_year:
  assumes "exact_stage lower (build_title_year_index lower plex_items) s = Some p"
  shows "p \<in> set plex_items \<and>
         normalize_title lower (title p) = normalize_title lower (title s) \<and>
         (truthy (year s) \<longrightarrow> year p = year s) \<and>
         (\<not> truthy (year s) \<longrightarrow> or_empty (year s) = [] \<and> \<not> truthy (year p))"
proof -
  from assms have mem: "p \<in> set plex_items"
    and key: "ty_key lower p = (normalize_title lower (title s), or_empty (year s))"
    using build_title_year_index_mem [of lower plex_items _ p] by (auto simp: exact_stage_def)
  from key have t: "normalize_title lower (title p) = normalize_title lower (title s)"
    and y: "or_empty (year p) = or_empty (year s)" by (simp_all add: ty_key_def)
  have "truthy (year s) \<longrightarrow> year p = year s"
    using y by (cases "year s"; cases "year p") auto
  moreover have "\<not> truthy (year s) \<longrightarrow> or_empty (year s) = [] \<and> \<not> truthy (year p)"
    using y by (cases "year s"; cases "year p") auto
  ultimately show ?thesis using mem t by blast
qed

theorem exact_stage_year_witness:
  "exact_stage lower_latin1 (build_title_year_index lower_latin1 [lib_it_1990, lib_it_2017])
     ref_it_2017 = Some lib_it_2017 \<and>
   truthy (year ref_it_2017) \<and> year lib_it_2017 = year ref_it_2017 \<and>
   normalize_title lower_latin1 (title lib_it_2017)
     = normalize_title lower_latin1 (title ref_it_2017) \<and>
   exact_stage lower_latin1 (build_title_year_index lower_latin1 [lib_it_2017, lib_plain])
     (lib_plain\<lparr>year := None\<rparr>) = Some lib_plain \<and>
   \<not> truthy (year (lib_plain\<lparr>year := None\<rparr>)) \<and> \<not> truthy (year lib_plain)"
proof -
  have t: "title lib_it_1990 = ustr ''It''" "title lib_it_2017 = ustr ''It''"
    "title ref_it_2017 = ustr ''IT''" "title lib_plain = ustr ''Airplane''"
    by (simp_all add: example_defs)
  have y: "year lib_it_1990 = Some (ustr ''1990'')" "year lib_it_2017 = Some (ustr ''2017'')"
    "year ref_it_2017 = Some (ustr ''2017'')" "year lib_plain = Some []"
    by (simp_all add: example_defs)
  have ne: "ustr ''1990'' \<noteq> ustr ''2017''" "ustr ''2017'' \<noteq> []" "ustr ''it'' \<noteq> ustr ''airplane''"
    by (simp_all add: ustr_def)
  have e1: "exact_stage lower_latin1
      (build_title_year_index lower_latin1 [lib_it_1990, lib_it_2017]) ref_it_2017
      = Some lib_it_2017"
    by (simp add: exact_stage_def build_title_year_index_find ty_key_def t y normalize_it
          normalize_IT)
  have e2: "exact_stage lower_latin1
      (build_title_year_index lower_latin1 [lib_it_2017, lib_plain]) (lib_plain\<lparr>year := None\<rparr>)
      = Some lib_plain"
    by (simp add: exact_stage_def build_title_year_index_find ty_key_def t y normalize_it
          normalize_airplane)
  from exact_stage_year [OF e1] exact_stage_year [OF e2] e1 e2 ne show ?thesis
    by (simp add: y)
qed

section \<open>Present and missing\<close>

text \<open>
  C9: \<^verbatim>\<open>match_present\<close> splits the source list: the references of the present entries are
  the source records for which a match is found, the missing ones are those for which none
  is found, each in the order of the source; the two lengths add up to the length of the
  source, no record is on both sides and every source record is on one.
\<close>

theorem match_present_partition:
  assumes "match_present lower scorer source plex_items fuzzy_threshold prefer_ids = (present, missing)"
  shows "length present + length missing = length source \<and>
         map fst present =
           filter (\<lambda>s. found_in lower scorer plex_items fuzzy_threshold prefer_ids s \<noteq> None) source \<and>
         missing =
           filter (\<lambda>s. found_in lower scorer plex_items fuzzy_threshold prefer_ids s = None) source \<and>
         fst ` set present \<inter> set missing = {} \<and>
         fst ` set present \<union> set missing = set source"
proof -
  let ?f = "found_in lower scorer plex_items fuzzy_threshold prefer_ids"
  from assms have p: "present = map (\<lambda>s. (s, ratingKey (the (?f s)))) (filter (\<lambda>s. ?f s \<noteq> None) source)"
    and m: "missing = filter (\<lambda>s. ?f s = None) source"
    by (simp_all add: match_present_eq)
  have "length (filter (\<lambda>s. ?f s \<noteq> None) source) + length (filter (\<lambda>s. ?f s = None) source)
          = length source"
    using sum_length_filter_compl [of "\<lambda>s. ?f s \<noteq> None" source] by simp
  moreover have "fst ` set present \<inter> set missing = {}"
    and "fst ` set present \<union> set missing = set source"
    by (auto simp: p m image_iff)
  ultimately show ?thesis using p m by (simp add: comp_def)
qed

theorem match_present_partition_witness:
  "match_present lower_latin1 sample_scorer [ref_blank, ref_conflict, ref_blank]
     [lib_it_1990, lib_it_2017] 90 True
     = ([(ref_conflict, Some 1)], [ref_blank, ref_blank]) \<and>
   length [(ref_conflict, Some (1::int))] + length [ref_blank, ref_blank]
     = length [ref_blank, ref_conflict, ref_blank] \<and>
   fst ` set [(ref_conflict, Some (1::int))] \<inter> set [ref_blank, ref_blank] = {} \<and>
   map fst [(ref_conflict, Some (1::int))]
     = filter (\<lambda>s. found_in lower_latin1 sample_scorer [lib_it_1990, lib_it_2017] 90 True s
                      \<noteq> None) [ref_blank, ref_conflict, ref_blank]"
proof -
  have b: "found_in lower_latin1 sample_scorer [lib_it_1990, lib_it_2017] 90 True ref_blank = None"
    by (simp add: found_in_def find_match_def id_fields_def exact_stage_def
          build_title_year_index_find ty_key_def fuzzy_stage_def fuzzy_candidate_def
          extractOne_def sample_scorer_def example_defs normalize_blank normalize_it)
       (simp add: ustr_def)
  have k1: "ratingKey lib_it_1990 = Some 1" by (simp add: example_defs)
  have e: "match_present lower_latin1 sample_scorer [ref_blank, ref_conflict, ref_blank]
     [lib_it_1990, lib_it_2017] 90 True = ([(ref_conflict, Some 1)], [ref_blank, ref_blank])"
    by (simp add: match_present_def b found_conflict k1)
  from match_present_partition [OF e] e show ?thesis by (simp add: b found_conflict)
qed

section \<open>Fuzzy stage\<close>

text \<open>
  C4: with \<open>plex_titles\<close> the normalized titles of a non-empty library and \<open>st\<close> the
  normalized title of the reference: when the best score of \<open>st\<close> against the titles equals
  \<open>fuzzy_threshold\<close>, a title with that score is accepted as the candidate, the stage
  returns the first library record with the candidate's title and a fitting year, and it
  does return a record when the reference has no year; when the best score is
  \<open>fuzzy_threshold - 1\<close>, no candidate is accepted and the stage returns no match.
\<close>

theorem fuzzy_threshold_boundary:
  assumes "plex_titles = map (\<lambda>p. normalize_title lower (title p)) plex_items"
    and "plex_titles \<noteq> []"
    and "st = normalize_title lower (title s)"
  shows "(Max (scorer st ` set plex_titles) = of_int fuzzy_threshold \<longrightarrow>
            (\<exists>c\<in>set plex_titles. scorer st c = of_int fuzzy_threshold \<and>
               fuzzy_candidate scorer fuzzy_threshold st plex_titles = Some c \<and>
               fuzzy_stage lower scorer fuzzy_threshold plex_titles plex_items s
                 = find (\<lambda>p. normalize_title lower (title p) = c \<and> year_ok s p) plex_items) \<and>
            (\<not> truthy (year s) \<longrightarrow>
               fuzzy_stage lower scorer fuzzy_threshold plex_titles plex_items s \<noteq> None)) \<and>
         (Max (scorer st ` set plex_titles) = of_int fuzzy_threshold - 1 \<longrightarrow>
            fuzzy_candidate scorer fuzzy_threshold st plex_titles = None \<and>
            fuzzy_stage lower scorer fuzzy_threshold plex_titles plex_items s = None)"
proof -
  let ?m = "Max (scorer st ` set plex_titles)"
  from fuzzy_candidate_best [OF assms(2), of scorer st fuzzy_threshold]
  obtain c where c: "c \<in> set plex_titles" "scorer st c = ?m"
    and cand: "fuzzy_candidate scorer fuzzy_threshold st plex_titles =
                 (if of_int fuzzy_threshold \<le> ?m then Some c else None)"
    by blast
  have acc: "?m = of_int fuzzy_threshold \<longrightarrow>
            (\<exists>c\<in>set plex_titles. scorer st c = of_int fuzzy_threshold \<and>
               fuzzy_candidate scorer fuzzy_threshold st plex_titles = Some c \<and>
               fuzzy_stage lower scorer fuzzy_threshold plex_titles plex_items s
                 = find (\<lambda>p. normalize_title lower (title p) = c \<and> year_ok s p) plex_items) \<and>
            (\<not> truthy (year s) \<longrightarrow>
               fuzzy_stage lower scorer fuzzy_threshold plex_titles plex_items s \<noteq> None)"
  proof
    assume eq: "?m = of_int fuzzy_threshold"
    with cand have fc: "fuzzy_candidate scorer fuzzy_threshold st plex_titles = Some c" by simp
    then have fs: "fuzzy_stage lower scorer fuzzy_threshold plex_titles plex_items s
                 = find (\<lambda>p. normalize_title lower (title p) = c \<and> year_ok s p) plex_items"
      by (simp add: fuzzy_stage_def assms(3))
    from c(1) assms(1) obtain p where p: "p \<in> set plex_items" "normalize_title lower (title p) = c"
      by auto
    have "\<not> truthy (year s) \<longrightarrow>
            fuzzy_stage lower scorer fuzzy_threshold plex_titles plex_items s \<noteq> None"
      unfolding fs find_not_None using p by (auto simp: year_ok_def)
    with c eq fc fs show "(\<exists>c\<in>set plex_titles. scorer st c = of_int fuzzy_threshold \<and>
               fuzzy_candidate scorer fuzzy_threshold st plex_titles = Some c \<and>
               fuzzy_stage lower scorer fuzzy_threshold plex_titles plex_items s
                 = find (\<lambda>p. normalize_title lower (title p) = c \<and> year_ok s p) plex_items) \<and>
            (\<not> truthy (year s) \<longrightarrow>
               fuzzy_stage lower scorer fuzzy_threshold plex_titles plex_items s \<noteq> None)"
      by auto
  qed
  have rej: "?m = of_int fuzzy_threshold - 1 \<longrightarrow>
            fuzzy_candidate scorer fuzzy_threshold st plex_titles = None \<and>
            fuzzy_stage lower scorer fuzzy_threshold plex_titles plex_items s = None"
    using cand by (auto simp: fuzzy_stage_def assms(3))
  from acc rej show ?thesis by blast
qed

theorem fuzzy_threshold_boundary_witness:
  "[ustr ''it'', ustr ''it'']
     = map (\<lambda>p. normalize_title lower_latin1 (title p)) [lib_it_1990, lib_it_2017] \<and>
   ustr ''its'' = normalize_title lower_latin1 (title ref_close) \<and>
   Max (sample_scorer (ustr ''its'') ` set [ustr ''it'', ustr ''it'']) = of_int 90 \<and>
   \<not> truthy (year ref_close) \<and>
   fuzzy_stage lower_latin1 sample_scorer 90 [ustr ''it'', ustr ''it'']
     [lib_it_1990, lib_it_2017] ref_close \<noteq> None \<and>
   fuzzy_stage lower_latin1 sample_scorer 90 [ustr ''it'', ustr ''it'']
     [lib_it_1990, lib_it_2017] ref_close = Some lib_it_1990 \<and>
   Max (sample_scorer (ustr ''its'') ` set [ustr ''it'', ustr ''it'']) = of_int 91 - 1 \<and>
   fuzzy_candidate sample_scorer 91 (ustr ''its'') [ustr ''it'', ustr ''it''] = None \<and>
   fuzzy_stage lower_latin1 sample_scorer 91 [ustr ''it'', ustr ''it'']
     [lib_it_1990, lib_it_2017] ref_close = None"
proof -
  have h1: "[ustr ''it'', ustr ''it'']
     = map (\<lambda>p. normalize_title lower_latin1 (title p)) [lib_it_1990, lib_it_2017]"
    by (simp add: example_defs normalize_it)
  have h2: "[ustr ''it'', ustr ''it''] \<noteq> []" by simp
  have h3: "ustr ''its'' = normalize_title lower_latin1 (title ref_close)"
    by (simp add: example_defs normalize_its)
  have m91: "Max (sample_scorer (ustr ''its'') ` set [ustr ''it'', ustr ''it'']) = of_int 91 - 1"
    unfolding max_its by simp
  have m90: "Max (sample_scorer (ustr ''its'') ` set [ustr ''it'', ustr ''it'']) = of_int 90"
    unfolding max_its by simp
  from fuzzy_threshold_boundary [OF h1 h2 h3, of sample_scorer 91] m91
  have r1: "fuzzy_candidate sample_scorer 91 (ustr ''its'') [ustr ''it'', ustr ''it''] = None"
    and r2: "fuzzy_stage lower_latin1 sample_scorer 91 [ustr ''it'', ustr ''it'']
           [lib_it_1990, lib_it_2017] ref_close = None"
    by blast+
  have ny: "\<not> truthy (year ref_close)" by (simp add: example_defs)
  from fuzzy_threshold_boundary [OF h1 h2 h3, of sample_scorer 90] m90 ny
  have r0: "fuzzy_stage lower_latin1 sample_scorer 90 [ustr ''it'', ustr ''it'']
           [lib_it_1990, lib_it_2017] ref_close \<noteq> None"
    by blast
  show ?thesis
    by (intro conjI) (rule h1 h3 m90 ny r0 fuzzy_close_90 m91 r1 r2)+
qed

section \<open>Empty normalized title\<close>

text \<open>
  C5, as the code behaves: there is no test for an empty normalized title before the fuzzy
  search. At \<open>fuzzy_threshold = 0\<close> a blank reference title, whose score against every
  library title is 0, has the first library title as an accepted candidate, and the
  reference without a year is matched to that library record.
\<close>

theorem fuzzy_empty_title_counterexample:
  "normalize_title lower_latin1 (title ref_blank) = [] \<and>
   fuzzy_stage lower_latin1 sample_scorer 0 [normalize_title lower_latin1 (title lib_plain)]
     [lib_plain] ref_blank = Some lib_plain \<and>
   found_in lower_latin1 sample_scorer [lib_plain] 0 True ref_blank = Some lib_plain \<and>
   match_present lower_latin1 sample_scorer [ref_blank] [lib_plain] 0 True
     = ([(ref_blank, Some 3)], [])"
proof -
  have "ratingKey lib_plain = Some 3" by (simp add: lib_plain_def)
  then have "match_present lower_latin1 sample_scorer [ref_blank] [lib_plain] 0 True
     = ([(ref_blank, Some 3)], [])"
    by (simp add: match_present_def found_blank_0)
  with normalize_blank_title fuzzy_blank_0 found_blank_0 show ?thesis by blast
qed

text \<open>
  C5, amended: for a reference whose normalized title is empty and a scorer that gives 0
  for an empty query, the fuzzy stage yields no match at every threshold above 0, whatever
  the library; at a threshold of 0 or below, a reference without a year is matched to the
  first record of a non-empty library.
\<close>

theorem fuzzy_stage_empty_title:
  assumes "normalize_title lower (title s) = []" and "\<forall>c. scorer [] c = 0"
  shows "(0 < fuzzy_threshold \<longrightarrow>
            fuzzy_stage lower scorer fuzzy_threshold
              (map (\<lambda>p. normalize_title lower (title p)) plex_items) plex_items s = None) \<and>
         (fuzzy_threshold \<le> 0 \<and> \<not> truthy (year s) \<longrightarrow>
            fuzzy_stage lower scorer fuzzy_threshold
              (map (\<lambda>p. normalize_title lower (title p)) (p # ps)) (p # ps) s = Some p)"
  by (auto simp: fuzzy_stage_def assms(1) fuzzy_candidate_all_zero [of scorer "[]", OF assms(2)] year_ok_def
        split: list.splits)

theorem fuzzy_stage_empty_title_witness:
  "normalize_title lower_latin1 (title ref_blank) = [] \<and>
   sample_scorer [] (ustr ''airplane'') = 0 \<and>
   fuzzy_stage lower_latin1 sample_scorer 1
     (map (\<lambda>p. normalize_title lower_latin1 (title p)) [lib_plain, lib_it_1990])
     [lib_plain, lib_it_1990] ref_blank = None \<and>
   fuzzy_stage lower_latin1 sample_scorer 100
     (map (\<lambda>p. normalize_title lower_latin1 (title p)) [lib_plain, lib_it_1990])
     [lib_plain, lib_it_1990] ref_blank = None \<and>
   \<not> truthy (year ref_blank) \<and>
   fuzzy_stage lower_latin1 sample_scorer 0
     (map (\<lambda>p. normalize_title lower_latin1 (title p)) [lib_plain, lib_it_1990])
     [lib_plain, lib_it_1990] ref_blank = Some lib_plain"
proof -
  have ny: "\<not> truthy (year ref_blank)" by (simp add: ref_blank_def)
  have z: "sample_scorer [] (ustr ''airplane'') = 0" by (simp add: sample_scorer_def)
  note t = fuzzy_stage_empty_title [of lower_latin1 ref_blank sample_scorer,
      OF normalize_blank_title sample_scorer_empty]
  from t [of 1 "[lib_plain, lib_it_1990]"]
  have r1: "fuzzy_stage lower_latin1 sample_scorer 1
     (map (\<lambda>p. normalize_title lower_latin1 (title p)) [lib_plain, lib_it_1990])
     [lib_plain, lib_it_1990] ref_blank = None" by simp
  from t [of 100 "[lib_plain, lib_it_1990]"]
  have r2: "fuzzy_stage lower_latin1 sample_scorer 100
     (map (\<lambda>p. normalize_title lower_latin1 (title p)) [lib_plain, lib_it_1990])
     [lib_plain, lib_it_1990] ref_blank = None" by simp
  from t [of 0 _ lib_plain "[lib_it_1990]"] ny
  have r3: "fuzzy_stage lower_latin1 sample_scorer 0
     (map (\<lambda>p. normalize_title lower_latin1 (title p)) [lib_plain, lib_it_1990])
     [lib_plain, lib_it_1990] ref_blank = Some lib_plain" by simp
  show ?thesis
    by (intro conjI) (rule normalize_blank_title z r1 r2 ny r3)+
qed

section \<open>Last write wins\<close>

text \<open>
  C8: both index constructions are total functions of the library list, there is no failing
  case. The entry of a key is the record at the last position that has the key: for the
  identifier index, the last record with the true value \<open>v\<close> under the key \<open>ns\<close>; for the
  title and year index, the last record with the pair of normalized title and
  year-or-empty. Earlier records with the same key are replaced.
\<close>

theorem index_last_write_wins:
  assumes "j < length items"
  shows "(get_id ns (items ! j) = Some v \<and> v \<noteq> [] \<and>
            (\<forall>l. j < l \<and> l < length items \<longrightarrow> get_id ns (items ! l) \<noteq> Some v) \<longrightarrow>
          index_by_ids items (fmt_key ns v) = Some (items ! j)) \<and>
         ((\<forall>l. j < l \<and> l < length items \<longrightarrow> ty_key lower (items ! l) \<noteq> ty_key lower (items ! j)) \<longrightarrow>
          build_title_year_index lower items (ty_key lower (items ! j)) = Some (items ! j))"
proof (intro conjI impI)
  assume "get_id ns (items ! j) = Some v \<and> v \<noteq> [] \<and>
            (\<forall>l. j < l \<and> l < length items \<longrightarrow> get_id ns (items ! l) \<noteq> Some v)"
  then show "index_by_ids items (fmt_key ns v) = Some (items ! j)"
    using find_rev_last [OF assms, of "\<lambda>it. get_id ns it = Some v \<and> v \<noteq> []"]
    by (simp add: index_by_ids_fmt)
next
  assume "\<forall>l. j < l \<and> l < length items \<longrightarrow> ty_key lower (items ! l) \<noteq> ty_key lower (items ! j)"
  then show "build_title_year_index lower items (ty_key lower (items ! j)) = Some (items ! j)"
    using find_rev_last [OF assms, of "\<lambda>it. ty_key lower it = ty_key lower (items ! j)"]
    by (simp add: build_title_year_index_find)
qed

theorem index_last_write_wins_witness:
  "(1::nat) < length [lib_it_1990, lib_it_copy, lib_it_2017] \<and>
   get_id Imdb_id lib_it_1990 = Some (ustr ''tt1'') \<and>
   get_id Imdb_id lib_it_copy = Some (ustr ''tt1'') \<and>
   get_id Imdb_id lib_it_2017 \<noteq> Some (ustr ''tt1'') \<and>
   lib_it_1990 \<noteq> lib_it_copy \<and>
   index_by_ids [lib_it_1990, lib_it_copy, lib_it_2017] (fmt_key Imdb_id (ustr ''tt1''))
     = Some lib_it_copy \<and>
   ty_key lower_latin1 lib_it_1990 = ty_key lower_latin1 lib_it_copy \<and>
   ty_key lower_latin1 lib_it_2017 \<noteq> ty_key lower_latin1 lib_it_copy \<and>
   build_title_year_index lower_latin1 [lib_it_1990, lib_it_copy, lib_it_2017]
     (ty_key lower_latin1 lib_it_copy) = Some lib_it_copy"
proof -
  let ?items = "[lib_it_1990, lib_it_copy, lib_it_2017]"
  have j: "(1::nat) < length ?items" by simp
  have two: "\<And>l. 1 < l \<and> l < length ?items \<Longrightarrow> l = 2" by auto
  have g0: "get_id Imdb_id lib_it_1990 = Some (ustr ''tt1'')" by (simp add: example_defs)
  have g1: "get_id Imdb_id lib_it_copy = Some (ustr ''tt1'')" by (simp add: example_defs)
  have g2: "get_id Imdb_id lib_it_2017 \<noteq> Some (ustr ''tt1'')"
    by (simp add: example_defs ustr_def)
  have ne: "ustr ''tt1'' \<noteq> []" by (simp add: ustr_def)
  have d: "lib_it_1990 \<noteq> lib_it_copy" by (simp add: example_defs)
  have k0: "ty_key lower_latin1 lib_it_1990 = ty_key lower_latin1 lib_it_copy"
    by (simp add: ty_key_def example_defs)
  have k2: "ty_key lower_latin1 lib_it_2017 \<noteq> ty_key lower_latin1 lib_it_copy"
    by (simp add: ty_key_def example_defs ustr_def)
  have a1: "\<forall>l. 1 < l \<and> l < length ?items \<longrightarrow> get_id Imdb_id (?items ! l) \<noteq> Some (ustr ''tt1'')"
    using g2 two by force
  have a2: "\<forall>l. 1 < l \<and> l < length ?items \<longrightarrow>
              ty_key lower_latin1 (?items ! l) \<noteq> ty_key lower_latin1 (?items ! 1)"
    using k2 two by force
  from index_last_write_wins [OF j, of Imdb_id "ustr ''tt1''" lower_latin1] g1 ne a1 a2
  have r1: "index_by_ids ?items (fmt_key Imdb_id (ustr ''tt1'')) = Some lib_it_copy"
    and r2: "build_title_year_index lower_latin1 ?items (ty_key lower_latin1 lib_it_copy)
               = Some lib_it_copy"
    by simp_all
  show ?thesis
    by (intro conjI) (rule j g0 g1 g2 d r1 k0 k2 r2)+
qed

section \<open>Absent and empty identifiers\<close>

text \<open>
  C10: an identifier that is absent, \<^verbatim>\<open>None\<close> or the empty string counts as not there, on
  both sides. Library: every entry of the identifier index comes from a true identifier of
  the record it leads to, the key of an empty value is never in the index, and the inner
  loop writes the same entries as it does without a key whose value is not true, wherever
  that key stands in the list. Reference: the identifier stage gives the same result as
  it does without a key whose value is not true, wherever that key stands; a match of the
  stage always comes from a key whose value is true; with no true value the stage finds
  nothing. Whenever the identifier stage finds nothing (or is switched off), whatever the
  other identifiers of the reference are, the result is that of the title stages, the exact
  one and then the fuzzy one.
\<close>

theorem falsy_identifiers_ignored:
  "(index_by_ids items k = Some p \<longrightarrow>
      p \<in> set items \<and> (\<exists>key v. get_id key p = Some v \<and> v \<noteq> [] \<and> k = fmt_key key v)) \<and>
   index_by_ids items (fmt_key key []) = None \<and>
   (\<not> truthy (get_id key it) \<longrightarrow>
      index_keys it keys idx = index_keys it (removeAll key keys) idx) \<and>
   (\<not> truthy (get_id key s) \<longrightarrow>
      id_stage id_index keys s = id_stage id_index (removeAll key keys) s) \<and>
   (id_stage id_index keys s = Some q \<longrightarrow>
      (\<exists>key'\<in>set keys. truthy (get_id key' s) \<and>
         id_index (fmt_key key' (or_empty (get_id key' s))) = Some q)) \<and>
   ((\<forall>key. \<not> truthy (get_id key s)) \<longrightarrow>
      id_stage id_index keys s = None \<and>
      found_in lower scorer plex_items fuzzy_threshold prefer_ids s =
        (case exact_stage lower (build_title_year_index lower plex_items) s of
           Some p \<Rightarrow> Some p
         | None \<Rightarrow> fuzzy_stage lower scorer fuzzy_threshold
                     (map (\<lambda>p. normalize_title lower (title p)) plex_items) plex_items s)) \<and>
   (\<not> prefer_ids \<or> id_stage (index_by_ids plex_items) id_fields s = None \<longrightarrow>
      found_in lower scorer plex_items fuzzy_threshold prefer_ids s =
        (case exact_stage lower (build_title_year_index lower plex_items) s of
           Some p \<Rightarrow> Some p
         | None \<Rightarrow> fuzzy_stage lower scorer fuzzy_threshold
                     (map (\<lambda>p. normalize_title lower (title p)) plex_items) plex_items s))"
proof -
  have a: "index_by_ids items k = Some p \<longrightarrow>
      p \<in> set items \<and> (\<exists>key v. get_id key p = Some v \<and> v \<noteq> [] \<and> k = fmt_key key v)"
    using index_by_ids_mem [of items k p] by (simp add: has_key_fields)
  have b: "index_by_ids items (fmt_key key []) = None"
    by (simp add: index_by_ids_fmt find_None_iff)
  have c: "\<not> truthy (get_id key it) \<longrightarrow>
      index_keys it keys idx = index_keys it (removeAll key keys) idx"
    using index_keys_removeAll by blast
  have d: "\<not> truthy (get_id key s) \<longrightarrow>
      id_stage id_index keys s = id_stage id_index (removeAll key keys) s"
    using id_stage_removeAll by blast
  have e: "id_stage id_index keys s = Some q \<longrightarrow>
      (\<exists>key'\<in>set keys. truthy (get_id key' s) \<and>
         id_index (fmt_key key' (or_empty (get_id key' s))) = Some q)"
    using id_stage_Some_truthy by blast
  have f: "(\<forall>key. \<not> truthy (get_id key s)) \<longrightarrow>
      id_stage id_index keys s = None \<and>
      found_in lower scorer plex_items fuzzy_threshold prefer_ids s =
        (case exact_stage lower (build_title_year_index lower plex_items) s of
           Some p \<Rightarrow> Some p
         | None \<Rightarrow> fuzzy_stage lower scorer fuzzy_threshold
                     (map (\<lambda>p. normalize_title lower (title p)) plex_items) plex_items s)"
    using id_stage_all_falsy [of s id_index keys]
      found_in_all_falsy [of s lower scorer plex_items fuzzy_threshold prefer_ids]
    by blast
  have g: "\<not> prefer_ids \<or> id_stage (index_by_ids plex_items) id_fields s = None \<longrightarrow>
      found_in lower scorer plex_items fuzzy_threshold prefer_ids s =
        (case exact_stage lower (build_title_year_index lower plex_items) s of
           Some p \<Rightarrow> Some p
         | None \<Rightarrow> fuzzy_stage lower scorer fuzzy_threshold
                     (map (\<lambda>p. normalize_title lower (title p)) plex_items) plex_items s)"
    using found_in_id_miss [of prefer_ids plex_items s lower scorer fuzzy_threshold] by blast
  from a b c d e f g show ?thesis by blast
qed

theorem falsy_identifiers_ignored_witness:
  "index_by_ids [lib_plain, lib_it_2017] (fmt_key Tmdb_id (ustr ''20'')) = Some lib_it_2017 \<and>
   get_id Tmdb_id lib_it_2017 = Some (ustr ''20'') \<and>
   get_id Imdb_id lib_plain = None \<and> get_id Tmdb_id lib_plain = Some [] \<and>
   index_by_ids [lib_plain, lib_it_2017] (fmt_key Tmdb_id []) = None \<and>
   index_keys lib_plain [Imdb_id, Tmdb_id, Tvdb_id] Map.empty
     = index_keys lib_plain [Imdb_id, Tvdb_id] Map.empty \<and>
   index_by_ids [lib_plain] = Map.empty \<and>
   get_id Imdb_id ref_it_2017 = None \<and> get_id Tmdb_id ref_it_2017 = Some [] \<and>
   get_id Tvdb_id ref_it_2017 = None \<and>
   id_stage (index_by_ids [lib_plain, lib_it_2017]) id_fields ref_it_2017 = None \<and>
   found_in lower_latin1 sample_scorer [lib_plain, lib_it_2017] 90 True ref_it_2017
     = Some lib_it_2017 \<and>
   get_id Imdb_id ref_mixed = Some [] \<and> get_id Tmdb_id ref_mixed = Some (ustr ''999'') \<and>
   truthy (get_id Tmdb_id ref_mixed) \<and>
   id_stage (index_by_ids [lib_plain, lib_it_2017]) [Tmdb_id, Imdb_id, Tvdb_id] ref_mixed
     = id_stage (index_by_ids [lib_plain, lib_it_2017]) [Tmdb_id, Tvdb_id] ref_mixed \<and>
   id_stage (index_by_ids [lib_plain, lib_it_2017]) id_fields ref_mixed = None \<and>
   found_in lower_latin1 sample_scorer [lib_plain, lib_it_2017] 90 True ref_mixed
     = Some lib_it_2017"
proof -
  let ?items = "[lib_plain, lib_it_2017]"
  note t = falsy_identifiers_ignored [where lower = lower_latin1 and scorer = sample_scorer
      and plex_items = ?items and fuzzy_threshold = 90 and prefer_ids = True]
  have i1: "index_by_ids ?items (fmt_key Tmdb_id (ustr ''20'')) = Some lib_it_2017"
    by (simp add: index_by_ids_fmt example_defs ustr_def)
  have g: "get_id Tmdb_id lib_it_2017 = Some (ustr ''20'')" "get_id Imdb_id lib_plain = None"
    "get_id Tmdb_id lib_plain = Some []" "get_id Tvdb_id lib_plain = None"
    "get_id Imdb_id ref_it_2017 = None" "get_id Tmdb_id ref_it_2017 = Some []"
    "get_id Tvdb_id ref_it_2017 = None"
    by (simp_all add: example_defs)
  have gm: "get_id Imdb_id ref_mixed = Some []" "get_id Tmdb_id ref_mixed = Some (ustr ''999'')"
    "get_id Tvdb_id ref_mixed = None"
    by (simp_all add: ref_mixed_def)
  have tm: "truthy (get_id Tmdb_id ref_mixed)" by (simp add: ref_mixed_def ustr_def)
  from t [where items = ?items and key = Tmdb_id]
  have i2: "index_by_ids ?items (fmt_key Tmdb_id []) = None" by blast
  from t [where key = Tmdb_id and it = lib_plain and keys = "[Imdb_id, Tmdb_id, Tvdb_id]"
      and idx = Map.empty] g
  have i3: "index_keys lib_plain [Imdb_id, Tmdb_id, Tvdb_id] Map.empty
     = index_keys lib_plain [Imdb_id, Tvdb_id] Map.empty" by simp
  have i4: "index_by_ids [lib_plain] = Map.empty"
    by (simp add: index_by_ids_def id_fields_def lib_plain_def)
  have all: "\<forall>key. \<not> truthy (get_id key ref_it_2017)"
  proof
    fix key show "\<not> truthy (get_id key ref_it_2017)"
      by (cases key) (simp_all add: ref_it_2017_def)
  qed
  have ex: "exact_stage lower_latin1 (build_title_year_index lower_latin1 ?items) ref_it_2017
              = Some lib_it_2017"
    by (simp add: exact_stage_def build_title_year_index_find ty_key_def example_defs
          normalize_it normalize_IT)
  from t [where s = ref_it_2017 and id_index = "index_by_ids ?items" and keys = id_fields]
    all ex
  have s1: "id_stage (index_by_ids ?items) id_fields ref_it_2017 = None"
    and s2: "found_in lower_latin1 sample_scorer ?items 90 True ref_it_2017 = Some lib_it_2017"
    by simp_all
  from t [where key = Imdb_id and s = ref_mixed and id_index = "index_by_ids ?items"
      and keys = "[Tmdb_id, Imdb_id, Tvdb_id]"] gm
  have m1: "id_stage (index_by_ids ?items) [Tmdb_id, Imdb_id, Tvdb_id] ref_mixed
     = id_stage (index_by_ids ?items) [Tmdb_id, Tvdb_id] ref_mixed" by simp
  have m2: "id_stage (index_by_ids ?items) id_fields ref_mixed = None"
    by (simp add: id_fields_def index_by_ids_fmt domIff example_defs ref_mixed_def ustr_def)
  have exm: "exact_stage lower_latin1 (build_title_year_index lower_latin1 ?items) ref_mixed
              = Some lib_it_2017"
    by (simp add: exact_stage_def build_title_year_index_find ty_key_def example_defs
          ref_mixed_def normalize_it)
  from t [where s = ref_mixed] m2 exm
  have m3: "found_in lower_latin1 sample_scorer ?items 90 True ref_mixed = Some lib_it_2017"
    by simp
  show ?thesis
    by (intro conjI) (rule i1 g gm tm i2 i3 i4 s1 s2 m1 m2 m3)+
qed

end
